theory Spec2Isabelle
  imports Complex_Main
begin

section \<open>Data model\<close>

text \<open>
  The analytics core of the repository works on JavaScript numbers. They are modelled
  as exact reals (\<^typ>\<open>real\<close>); operands, identifiers and keystroke counts, which the
  application only ever creates as non-negative integers, are \<^typ>\<open>nat\<close>, and epoch
  timestamps are \<^typ>\<open>int\<close>. An optional field (\<^verbatim>\<open>id?: number\<close>) is an
  \<^typ>\<open>'a option\<close>, \<^term>\<open>None\<close> standing for \<^verbatim>\<open>undefined\<close>; a
  \<^verbatim>\<open>number | null\<close> result is a \<^typ>\<open>real option\<close>.

  Field names follow the source, except where a name would capture a HOL constant or a
  variable name used everywhere: the point's \<^verbatim>\<open>x\<close> and \<^verbatim>\<open>y\<close> are \<open>px\<close> and
  \<open>py\<close>, the range's \<^verbatim>\<open>min\<close> and \<^verbatim>\<open>max\<close> are \<open>range_min\<close> and
  \<open>range_max\<close>, and the fields that the exercise and the evaluation record share carry
  the prefix \<open>ex_\<close> or \<open>ev_\<close>.
\<close>

datatype ExerciseMode = Trial | Serious

datatype ModeFilter = MF_all | MF_mode ExerciseMode

record ExerciseRecord =
  ex_id :: "nat option"
  ex_userId :: nat
  operandA :: nat
  operandB :: nat
  answer :: nat
  displayedAt :: int
  solvedAt :: "int option"
  ex_mode :: ExerciseMode
  evaluationId :: "nat option"
  keystrokeCount :: "nat option"

record EvaluationRecord =
  ev_id :: "nat option"
  ev_userId :: nat
  rating :: real
  exerciseIds :: "nat list"
  ev_mode :: ExerciseMode
  createdAt :: int

record DifficultyWeights =
  digits :: real
  carryovers :: real
  zeros :: real

record DifficultyRange =
  range_min :: real
  range_max :: real

record DataPoint =
  px :: real
  py :: real
  isOutlier :: "bool option"

record Correlations =
  cl :: "real option"
  time :: "real option"
  correctness :: "real option"

text \<open>
  The incumbent of the grid search starts with the score \<^verbatim>\<open>-Infinity\<close>, the one
  non-real number the core uses; the score field therefore has its own type.
\<close>

datatype score = NegInfinity | Num real

record OptimizationResult =
  weights :: DifficultyWeights
  correlations :: Correlations
  compositeScore :: score

record OptimizationProgress =
  current :: nat
  total :: nat
  percentage :: real

section \<open>Difficulty scorer (\<^verbatim>\<open>useDifficultyCalculation\<close>)\<close>

text \<open>
  \<^verbatim>\<open>String(n)\<close> of a non-negative integer is its decimal numeral (for the operands the
  application generates, which are far below the \<^verbatim>\<open>1e21\<close> where JavaScript switches
  to exponent notation).
\<close>

definition digit_char :: "nat \<Rightarrow> char" where
  "digit_char d = ''0123456789'' ! d"

fun String_of :: "nat \<Rightarrow> string" where
  "String_of n =
     (if n < 10 then [digit_char n] else String_of (n div 10) @ [digit_char (n mod 10)])"

declare String_of.simps [simp del]

text \<open>
  \<^verbatim>\<open>parseInt\<close> is only ever applied to one character of such a string (or to
  \<^verbatim>\<open>'0'\<close>); \<^term>\<open>None\<close> is \<^verbatim>\<open>NaN\<close>.
\<close>

definition parseInt :: "char \<Rightarrow> nat option" where
  "parseInt c =
     map_of [(CHR ''0'', 0), (CHR ''1'', 1), (CHR ''2'', 2), (CHR ''3'', 3), (CHR ''4'', 4),
             (CHR ''5'', 5), (CHR ''6'', 6), (CHR ''7'', 7), (CHR ''8'', 8), (CHR ''9'', 9)] c"

definition countTotalDigits :: "nat \<Rightarrow> nat \<Rightarrow> nat" where
  "countTotalDigits a b = length (String_of a) + length (String_of b)"

definition countZeros :: "nat \<Rightarrow> nat \<Rightarrow> int" where
  "countZeros a b =
     (let strA = String_of a;
          strB = String_of b;
          zeroCount = length (filter (\<lambda>c. c = CHR ''0'') strA)
                    + length (filter (\<lambda>c. c = CHR ''0'') strB)
      in - int zeroCount)"

text \<open>\<^verbatim>\<open>strA[i] || '0'\<close>: a read past the end is \<^verbatim>\<open>undefined\<close>, replaced by \<^verbatim>\<open>'0'\<close>.\<close>

definition char_or_zero :: "string \<Rightarrow> nat \<Rightarrow> char" where
  "char_or_zero s i = (if i < length s then s ! i else CHR ''0'')"

text \<open>
  One round of the \<^verbatim>\<open>for\<close> loop of \<^verbatim>\<open>countCarryovers\<close>; the state is the pair
  \<open>(carryovers, carry)\<close>. A comparison with \<^verbatim>\<open>NaN\<close> is false, so a digit that did
  not parse takes the \<^verbatim>\<open>else\<close> branch.
\<close>

definition carry_step :: "string \<Rightarrow> string \<Rightarrow> nat \<Rightarrow> nat \<times> nat \<Rightarrow> nat \<times> nat" where
  "carry_step strA strB i st =
     (case (parseInt (char_or_zero strA i), parseInt (char_or_zero strB i)) of
        (Some digitA, Some digitB) \<Rightarrow>
          (let sum = digitA + digitB + snd st
           in if sum \<ge> 10 then (fst st + 1, 1) else (fst st, 0))
      | _ \<Rightarrow> (fst st, 0))"

definition countCarryovers :: "nat \<Rightarrow> nat \<Rightarrow> nat" where
  "countCarryovers a b =
     (let strA = rev (String_of a);
          strB = rev (String_of b);
          maxLen = max (length strA) (length strB)
      in fst (fold (carry_step strA strB) [0..<maxLen] (0, 0)))"

definition calculateDifficultyScore :: "ExerciseRecord \<Rightarrow> DifficultyWeights \<Rightarrow> real" where
  "calculateDifficultyScore ex w =
     digits w * real (countTotalDigits (operandA ex) (operandB ex))
   + carryovers w * real (countCarryovers (operandA ex) (operandB ex))
   + zeros w * real_of_int (countZeros (operandA ex) (operandB ex))"

text \<open>The guard \<^verbatim>\<open>modeFilter !== 'all' && ex.mode !== modeFilter\<close>.\<close>

definition mode_rejected :: "ModeFilter \<Rightarrow> ExerciseMode \<Rightarrow> bool" where
  "mode_rejected modeFilter m = (modeFilter \<noteq> MF_all \<and> MF_mode m \<noteq> modeFilter)"

definition range_scores :: "ExerciseRecord list \<Rightarrow> DifficultyWeights \<Rightarrow> ModeFilter \<Rightarrow> real list" where
  "range_scores exercises w modeFilter =
     fold (\<lambda>ex scores.
             if mode_rejected modeFilter (ex_mode ex) then scores
             else scores @ [calculateDifficultyScore ex w])
          exercises []"

definition calculateDifficultyRange ::
  "ExerciseRecord list \<Rightarrow> DifficultyWeights \<Rightarrow> ModeFilter \<Rightarrow> DifficultyRange" where
  "calculateDifficultyRange exercises w modeFilter =
     (case range_scores exercises w modeFilter of
        [] \<Rightarrow> \<lparr>range_min = 0, range_max = 100\<rparr>
      | s # ss \<Rightarrow>
          (let mn = fold min ss s;
               mx = fold max ss s
           in if mn = mx then \<lparr>range_min = mn - 1, range_max = mn + 1\<rparr>
              else \<lparr>range_min = mn, range_max = mx\<rparr>))"

definition normalizeDifficulty :: "real \<Rightarrow> DifficultyRange \<Rightarrow> real" where
  "normalizeDifficulty rawScore rng =
     ((rawScore - range_min rng) / (range_max rng - range_min rng)) * 100"

section \<open>Outlier detector (\<^verbatim>\<open>useOutlierDetection\<close>)\<close>

text \<open>A JavaScript array read: \<^verbatim>\<open>undefined\<close> out of range.\<close>

definition nth_opt :: "'a list \<Rightarrow> nat \<Rightarrow> 'a option" where
  "nth_opt xs i = (if i < length xs then Some (xs ! i) else None)"

definition detectOutliersIQR :: "real list \<Rightarrow> real \<Rightarrow> nat set" where
  "detectOutliersIQR vals sensitivity =
    (if length vals < 4 then {}
     else
       let sorted = sort vals;
           q1Index = nat \<lfloor>real (length sorted) * 0.25\<rfloor>;
           q3Index = nat \<lfloor>real (length sorted) * 0.75\<rfloor>
       in case (nth_opt sorted q1Index, nth_opt sorted q3Index) of
            (Some q1, Some q3) \<Rightarrow>
              let iqr = q3 - q1;
                  lowerBound = q1 - sensitivity * iqr;
                  upperBound = q3 + sensitivity * iqr
              in fold (\<lambda>(val, idx) outlierIndices.
                         if val < lowerBound \<or> val > upperBound
                         then insert idx outlierIndices else outlierIndices)
                      (zip vals [0..<length vals]) {}
          | _ \<Rightarrow> {})"

text \<open>
  \<^verbatim>\<open>applyOutlierDetection\<close> copies the array (\<^verbatim>\<open>[...points]\<close>) and then assigns
  to the \<^verbatim>\<open>isOutlier\<close> field of the objects the copy holds, which are the objects of
  the argument. The model keeps that sharing: a store of point objects addressed by
  index, and arrays as lists of references into it. The function returns the store
  after the call together with the new array.
\<close>

type_synonym ref = nat
type_synonym store = "DataPoint list"

definition set_isOutlier :: "ref \<Rightarrow> bool \<Rightarrow> store \<Rightarrow> store" where
  "set_isOutlier r b h = h[r := (h ! r)\<lparr>isOutlier := Some b\<rparr>]"

definition applyOutlierDetection ::
  "store \<Rightarrow> ref list \<Rightarrow> real \<Rightarrow> bool \<Rightarrow> store \<times> ref list" where
  "applyOutlierDetection h points sensitivity enabled =
     (let result = points
      in if \<not> enabled \<or> length points < 4
         then (fold (\<lambda>point. set_isOutlier point False) result h, result)
         else
           let xValues = map (\<lambda>p. px (h ! p)) points;
               yValues = map (\<lambda>p. py (h ! p)) points;
               xOutliers = detectOutliersIQR xValues sensitivity;
               yOutliers = detectOutliersIQR yValues sensitivity
           in (fold (\<lambda>(point, idx). set_isOutlier point (idx \<in> xOutliers \<or> idx \<in> yOutliers))
                    (zip result [0..<length result]) h,
               result))"

text \<open>
  The callers build their points as fresh object literals, pass the array on and read
  the returned array: allocation at the addresses \<open>0, 1, \<dots>\<close> of a new store, the call,
  and a read of every returned reference.
\<close>

definition applyOutlierDetection_fresh :: "DataPoint list \<Rightarrow> real \<Rightarrow> bool \<Rightarrow> DataPoint list" where
  "applyOutlierDetection_fresh points sensitivity enabled =
     (let (h', result) = applyOutlierDetection points [0..<length points] sensitivity enabled
      in map (\<lambda>r. h' ! r) result)"

section \<open>Correlation engine (\<^verbatim>\<open>useCorrelationStats\<close>)\<close>

definition calculateCorrelation :: "DataPoint list \<Rightarrow> real option" where
  "calculateCorrelation points =
     (if length points < 2 then None
      else
        let n = real (length points);
            sumX = foldl (\<lambda>sum p. sum + px p) 0 points;
            sumY = foldl (\<lambda>sum p. sum + py p) 0 points;
            sumXY = foldl (\<lambda>sum p. sum + px p * py p) 0 points;
            sumX2 = foldl (\<lambda>sum p. sum + px p * px p) 0 points;
            sumY2 = foldl (\<lambda>sum p. sum + py p * py p) 0 points;
            numerator = n * sumXY - sumX * sumY;
            denominator = sqrt ((n * sumX2 - sumX * sumX) * (n * sumY2 - sumY * sumY))
        in if denominator = 0 then None else Some (numerator / denominator))"

section \<open>Correlation builder\<close>

text \<open>
  JavaScript truthiness of the optional fields the builders test: \<^verbatim>\<open>!ex.id\<close> holds
  for \<^verbatim>\<open>undefined\<close> and for \<open>0\<close>, and \<^verbatim>\<open>!p.isOutlier\<close> holds for
  \<^verbatim>\<open>undefined\<close> and for \<^verbatim>\<open>false\<close>.
\<close>

definition falsy :: "'a::zero option \<Rightarrow> bool" where
  "falsy v = (v = None \<or> v = Some 0)"

definition not_outlier :: "DataPoint \<Rightarrow> bool" where
  "not_outlier p = (isOutlier p \<noteq> Some True)"

text \<open>
  The three point-building loops appear twice in the repository with the same body: in
  \<^verbatim>\<open>calculateCorrelationsForWeights\<close> of the weight optimizer and in the computed
  properties of the correlation view. Each is a \<^verbatim>\<open>forEach\<close> that pushes to a local
  array.
\<close>

definition timePoints ::
  "DifficultyWeights \<Rightarrow> ExerciseRecord list \<Rightarrow> ModeFilter \<Rightarrow> DifficultyRange \<Rightarrow> DataPoint list" where
  "timePoints w exercises modeFilter rng =
     fold (\<lambda>ex points.
             if falsy (solvedAt ex) \<or> falsy (ex_id ex) then points
             else if mode_rejected modeFilter (ex_mode ex) then points
             else
               case solvedAt ex of
                 None \<Rightarrow> points
               | Some solved \<Rightarrow>
                   let duration = real_of_int (solved - displayedAt ex) / 1000
                   in if duration < 0.5 \<or> duration > 120 then points
                      else
                        let rawDifficulty = calculateDifficultyScore ex w;
                            difficulty = normalizeDifficulty rawDifficulty rng
                        in points @ [\<lparr>px = difficulty, py = duration, isOutlier = Some False\<rparr>])
          exercises []"

definition ratingMap_of :: "EvaluationRecord list \<Rightarrow> ModeFilter \<Rightarrow> (nat \<rightharpoonup> real list)" where
  "ratingMap_of evaluations modeFilter =
     fold (\<lambda>evaluation ratingMap.
             if mode_rejected modeFilter (ev_mode evaluation) then ratingMap
             else if rating evaluation < 1 \<or> rating evaluation > 9 then ratingMap
             else
               fold (\<lambda>exerciseId m.
                       case m exerciseId of
                         None \<Rightarrow> m(exerciseId \<mapsto> [rating evaluation])
                       | Some rs \<Rightarrow> m(exerciseId \<mapsto> rs @ [rating evaluation]))
                    (exerciseIds evaluation) ratingMap)
          evaluations Map.empty"

definition ratingPoints ::
  "DifficultyWeights \<Rightarrow> ExerciseRecord list \<Rightarrow> EvaluationRecord list \<Rightarrow> ModeFilter
     \<Rightarrow> DifficultyRange \<Rightarrow> DataPoint list" where
  "ratingPoints w exercises evaluations modeFilter rng =
     (let ratingMap = ratingMap_of evaluations modeFilter
      in fold (\<lambda>ex points.
                 if falsy (ex_id ex) then points
                 else
                   case ex_id ex of
                     None \<Rightarrow> points
                   | Some i \<Rightarrow>
                       (case ratingMap i of
                          None \<Rightarrow> points
                        | Some ratings \<Rightarrow>
                            if length ratings = 0 then points
                            else
                              let avgRating = foldl (\<lambda>sum r. sum + r) 0 ratings / real (length ratings);
                                  rawDifficulty = calculateDifficultyScore ex w;
                                  difficulty = normalizeDifficulty rawDifficulty rng
                              in points @ [\<lparr>px = difficulty, py = avgRating, isOutlier = Some False\<rparr>]))
              exercises [])"

definition correctnessPoints ::
  "DifficultyWeights \<Rightarrow> ExerciseRecord list \<Rightarrow> ModeFilter \<Rightarrow> DifficultyRange \<Rightarrow> DataPoint list" where
  "correctnessPoints w exercises modeFilter rng =
     fold (\<lambda>ex points.
             if falsy (ex_id ex) then points
             else
               case keystrokeCount ex of
                 None \<Rightarrow> points
               | Some keystrokes \<Rightarrow>
                   if mode_rejected modeFilter (ex_mode ex) then points
                   else
                     let optimal = length (String_of (answer ex));
                         efficiency = (real keystrokes / real optimal) * 100
                     in if efficiency < 100 \<or> efficiency > 500 then points
                        else
                          let rawDifficulty = calculateDifficultyScore ex w;
                              difficulty = normalizeDifficulty rawDifficulty rng;
                              isCorrect = (if efficiency = 100 then 1 else 0)
                          in points @ [\<lparr>px = difficulty, py = isCorrect, isOutlier = Some False\<rparr>])
          exercises []"

subsection \<open>The correlation view's \<^verbatim>\<open>difficultyVsCorrectness\<close>\<close>

text \<open>
  The view reads the range from \<^verbatim>\<open>useDifficultyRange\<close>, that is
  \<^verbatim>\<open>calculateDifficultyRange\<close> of its exercises, weights and mode filter, and flags
  its own fresh points in place; the source comments
  \<^verbatim>\<open>Only detect outliers on X-axis (difficulty) for binary data, not Y-axis\<close>.
\<close>

definition difficultyVsCorrectness ::
  "ExerciseRecord list \<Rightarrow> ModeFilter \<Rightarrow> DifficultyWeights \<Rightarrow> real \<Rightarrow> DataPoint list" where
  "difficultyVsCorrectness exercises modeFilter difficultyWeights outlierSensitivity =
     (let difficultyRange = calculateDifficultyRange exercises difficultyWeights modeFilter;
          points = correctnessPoints difficultyWeights exercises modeFilter difficultyRange
      in if length points \<ge> 4
         then
           let xValues = map px points;
               xOutliers = detectOutliersIQR xValues outlierSensitivity
           in map (\<lambda>(point, idx). point\<lparr>isOutlier := Some (idx \<in> xOutliers)\<rparr>)
                  (zip points [0..<length points])
         else points)"

section \<open>Weight optimizer (\<^verbatim>\<open>useWeightOptimization\<close>)\<close>

definition calculateCompositeScore :: "Correlations \<Rightarrow> real" where
  "calculateCompositeScore c =
     (let acc0 = (0 :: real, 0 :: nat);
          acc1 = (case cl c of None \<Rightarrow> acc0 | Some v \<Rightarrow> (fst acc0 + v, snd acc0 + 1));
          acc2 = (case time c of None \<Rightarrow> acc1 | Some v \<Rightarrow> (fst acc1 + v, snd acc1 + 1));
          acc3 = (case correctness c of None \<Rightarrow> acc2 | Some v \<Rightarrow> (fst acc2 + \<bar>v\<bar>, snd acc2 + 1))
      in if snd acc3 > 0 then fst acc3 / real (snd acc3) else 0)"

text \<open>
  The local \<^verbatim>\<open>correctnessPointsWithOutliers\<close> of
  \<^verbatim>\<open>calculateCorrelationsForWeights\<close>, as a function of what it is computed from.
\<close>

definition correctnessPointsWithOutliers ::
  "DifficultyWeights \<Rightarrow> ExerciseRecord list \<Rightarrow> ModeFilter \<Rightarrow> bool \<Rightarrow> real \<Rightarrow> DataPoint list" where
  "correctnessPointsWithOutliers w exercises modeFilter detectOutliers outlierSensitivity =
     (let rng = calculateDifficultyRange exercises w modeFilter;
          correctnessPts = correctnessPoints w exercises modeFilter rng
      in applyOutlierDetection_fresh correctnessPts outlierSensitivity detectOutliers)"

definition calculateCorrelationsForWeights ::
  "DifficultyWeights \<Rightarrow> ExerciseRecord list \<Rightarrow> EvaluationRecord list \<Rightarrow> ModeFilter
     \<Rightarrow> bool \<Rightarrow> real \<Rightarrow> Correlations" where
  "calculateCorrelationsForWeights w exercises evaluations modeFilter detectOutliers outlierSensitivity =
     (let rng = calculateDifficultyRange exercises w modeFilter;
          timePts = timePoints w exercises modeFilter rng;
          timePointsWithOutliers = applyOutlierDetection_fresh timePts outlierSensitivity detectOutliers;
          timeCorr = calculateCorrelation (filter not_outlier timePointsWithOutliers);
          ratingPts = ratingPoints w exercises evaluations modeFilter rng;
          ratingPointsWithOutliers = applyOutlierDetection_fresh ratingPts outlierSensitivity detectOutliers;
          clCorr = calculateCorrelation (filter not_outlier ratingPointsWithOutliers);
          correctnessCorr =
            calculateCorrelation
              (filter not_outlier
                 (correctnessPointsWithOutliers w exercises modeFilter detectOutliers outlierSensitivity))
      in \<lparr>cl = clCorr, time = timeCorr, correctness = correctnessCorr\<rparr>)"

text \<open>\<^verbatim>\<open>Math.round\<close> rounds half up.\<close>

definition Math_round :: "real \<Rightarrow> real" where
  "Math_round v = real_of_int \<lfloor>v + 1 / 2\<rfloor>"

text \<open>
  The three loops that enumerate the grid axes, each from its current counter value;
  the repeated addition of the step is exact here, where the source accumulates doubles.
\<close>

function digitsValues_from :: "real \<Rightarrow> real list" where
  "digitsValues_from d =
     (if d \<le> 5 then (Math_round (d * 10) / 10) # digitsValues_from (d + 0.2) else [])"
  by pat_completeness auto
termination
proof (relation "measure (\<lambda>d. nat (\<lceil>(5 - d) * 5\<rceil> + 1))")
  fix d :: real
  assume h: "d \<le> 5"
  define t where "t = (5 - d) * 5"
  have e: "(5 - (d + 0.2)) * 5 = t - 1"
    unfolding t_def by argo
  have "0 \<le> t"
    unfolding t_def using h by simp
  then have "0 \<le> \<lceil>t\<rceil>"
    by (simp add: le_ceiling_iff)
  then have "nat (\<lceil>t - 1\<rceil> + 1) < nat (\<lceil>t\<rceil> + 1)"
    by simp
  then show "(d + 0.2, d) \<in> measure (\<lambda>d. nat (\<lceil>(5 - d) * 5\<rceil> + 1))"
    unfolding in_measure e t_def .
qed simp

declare digitsValues_from.simps [simp del]

function carryoversValues_from :: "real \<Rightarrow> real list" where
  "carryoversValues_from c =
     (if c \<le> 10 then (Math_round (c * 10) / 10) # carryoversValues_from (c + 0.4) else [])"
  by pat_completeness auto
termination
proof (relation "measure (\<lambda>c. nat (\<lceil>(10 - c) * 5 / 2\<rceil> + 1))")
  fix c :: real
  assume h: "c \<le> 10"
  define t where "t = (10 - c) * 5 / 2"
  have e: "(10 - (c + 0.4)) * 5 / 2 = t - 1"
    unfolding t_def by argo
  have "0 \<le> t"
    unfolding t_def using h by simp
  then have "0 \<le> \<lceil>t\<rceil>"
    by (simp add: le_ceiling_iff)
  then have "nat (\<lceil>t - 1\<rceil> + 1) < nat (\<lceil>t\<rceil> + 1)"
    by simp
  then show "(c + 0.4, c) \<in> measure (\<lambda>c. nat (\<lceil>(10 - c) * 5 / 2\<rceil> + 1))"
    unfolding in_measure e t_def .
qed simp

declare carryoversValues_from.simps [simp del]

function zerosValues_from :: "real \<Rightarrow> real list" where
  "zerosValues_from z =
     (if z \<le> 5 then (Math_round (z * 10) / 10) # zerosValues_from (z + 0.2) else [])"
  by pat_completeness auto
termination
proof (relation "measure (\<lambda>z. nat (\<lceil>(5 - z) * 5\<rceil> + 1))")
  fix z :: real
  assume h: "z \<le> 5"
  define t where "t = (5 - z) * 5"
  have e: "(5 - (z + 0.2)) * 5 = t - 1"
    unfolding t_def by argo
  have "0 \<le> t"
    unfolding t_def using h by simp
  then have "0 \<le> \<lceil>t\<rceil>"
    by (simp add: le_ceiling_iff)
  then have "nat (\<lceil>t - 1\<rceil> + 1) < nat (\<lceil>t\<rceil> + 1)"
    by simp
  then show "(z + 0.2, z) \<in> measure (\<lambda>z. nat (\<lceil>(5 - z) * 5\<rceil> + 1))"
    unfolding in_measure e t_def .
qed simp

declare zerosValues_from.simps [simp del]

text \<open>
  The state of the search: the incumbent, the counter, and the progress reports handed
  to \<^verbatim>\<open>onProgress\<close> so far. The \<^verbatim>\<open>await\<close> after a report only yields to the host
  and changes none of them; the value below is the one the returned promise resolves to.
\<close>

record search_state =
  bestResult :: OptimizationResult
  currentCombination :: nat
  reports :: "OptimizationProgress list"

definition score_gt :: "real \<Rightarrow> score \<Rightarrow> bool" where
  "score_gt v s = (case s of NegInfinity \<Rightarrow> True | Num b \<Rightarrow> v > b)"

definition grid_body ::
  "ExerciseRecord list \<Rightarrow> EvaluationRecord list \<Rightarrow> ModeFilter \<Rightarrow> bool \<Rightarrow> real \<Rightarrow> bool \<Rightarrow> nat
     \<Rightarrow> DifficultyWeights \<Rightarrow> search_state \<Rightarrow> search_state" where
  "grid_body exercises evaluations modeFilter detectOutliers outlierSensitivity onProgress
             totalCombinations w st =
     (let corr = calculateCorrelationsForWeights w exercises evaluations modeFilter
                   detectOutliers outlierSensitivity;
          composite = calculateCompositeScore corr;
          best = (if score_gt composite (compositeScore (bestResult st))
                  then \<lparr>weights = w, correlations = corr, compositeScore = Num composite\<rparr>
                  else bestResult st);
          cur = currentCombination st + 1;
          reps = (if onProgress \<and> cur mod 100 = 0
                  then reports st @
                       [\<lparr>current = cur, total = totalCombinations,
                         percentage = (real cur / real totalCombinations) * 100\<rparr>]
                  else reports st)
      in \<lparr>bestResult = best, currentCombination = cur, reports = reps\<rparr>)"

definition gridSearch ::
  "ExerciseRecord list \<Rightarrow> EvaluationRecord list \<Rightarrow> ModeFilter \<Rightarrow> bool \<Rightarrow> real \<Rightarrow> bool
     \<Rightarrow> OptimizationResult \<times> OptimizationProgress list" where
  "gridSearch exercises evaluations modeFilter detectOutliers outlierSensitivity onProgress =
     (let digitsValues = digitsValues_from 0;
          carryoversValues = carryoversValues_from 0;
          zerosValues = zerosValues_from 0;
          totalCombinations = length digitsValues * length carryoversValues * length zerosValues;
          st0 = \<lparr>bestResult =
                   \<lparr>weights = \<lparr>digits = 1.0, carryovers = 2.5, zeros = 0.5\<rparr>,
                    correlations = \<lparr>cl = None, time = None, correctness = None\<rparr>,
                    compositeScore = NegInfinity\<rparr>,
                 currentCombination = 0, reports = []\<rparr>;
          st = fold (\<lambda>d. fold (\<lambda>c. fold (\<lambda>z.
                       grid_body exercises evaluations modeFilter detectOutliers outlierSensitivity
                         onProgress totalCombinations \<lparr>digits = d, carryovers = c, zeros = z\<rparr>)
                     zerosValues) carryoversValues) digitsValues st0;
          reps = (if onProgress
                  then reports st @
                       [\<lparr>current = totalCombinations, total = totalCombinations, percentage = 100\<rparr>]
                  else reports st)
      in (bestResult st, reps))"

section \<open>The specification's wording, for comparison\<close>

text \<open>
  The outlier rule as the specification words it: order-statistic quartiles of the sorted
  sample and the indices of the values strictly outside the fences.
\<close>

definition iqr_outliers_spec :: "real list \<Rightarrow> real \<Rightarrow> nat set" where
  "iqr_outliers_spec vals s =
     (if length vals < 4 then {}
      else
        let n = length vals;
            sorted = sort vals;
            q1 = sorted ! nat \<lfloor>0.25 * real n\<rfloor>;
            q3 = sorted ! nat \<lfloor>0.75 * real n\<rfloor>
        in {i. i < n \<and> (vals ! i < q1 - s * (q3 - q1) \<or> vals ! i > q3 + s * (q3 - q1))})"

text \<open>
  The composite score as the specification words it: the mean of the correlations that
  are available, the correctness correlation by its absolute value, and \<open>0\<close> when none is.
\<close>

definition composite_spec :: "Correlations \<Rightarrow> real" where
  "composite_spec c =
     (let available = List.map_filter (\<lambda>v. v) [cl c, time c, map_option abs (correctness c)]
      in if available = [] then 0 else sum_list available / real (length available))"

text \<open>
  The raw scores of the mode-filtered population, in the specification's words: filter
  by mode (or take all), then score each exercise.
\<close>

definition filtered_scores :: "ExerciseRecord list \<Rightarrow> DifficultyWeights \<Rightarrow> ModeFilter \<Rightarrow> real list" where
  "filtered_scores exercises w modeFilter =
     map (\<lambda>ex. calculateDifficultyScore ex w)
         (filter (\<lambda>ex. modeFilter = MF_all \<or> MF_mode (ex_mode ex) = modeFilter) exercises)"

section \<open>Example inputs\<close>

text \<open>
  \<^verbatim>\<open>DEFAULT_DIFFICULTY_WEIGHTS\<close> of the repository, and a trial-mode exercise record as
  \<^verbatim>\<open>createExerciseRecord\<close> and \<^verbatim>\<open>markExerciseSolved\<close> leave it: the answer is the
  sum of the operands, shown at time \<open>0\<close> and solved three seconds later with the given
  number of keystrokes.
\<close>

definition DEFAULT_DIFFICULTY_WEIGHTS :: DifficultyWeights where
  "DEFAULT_DIFFICULTY_WEIGHTS = \<lparr>digits = 1.0, carryovers = 2.5, zeros = 0.5\<rparr>"

definition exercise :: "nat \<Rightarrow> nat \<Rightarrow> nat \<Rightarrow> nat \<Rightarrow> ExerciseRecord" where
  "exercise i a b keys =
     \<lparr>ex_id = Some i, ex_userId = 1, operandA = a, operandB = b, answer = a + b,
      displayedAt = 0, solvedAt = Some 3000, ex_mode = Trial, evaluationId = None,
      keystrokeCount = Some keys\<rparr>"

text \<open>
  Five solved exercises of rising difficulty; the first four were typed with twice the
  keystrokes of their answer, the last with exactly as many.
\<close>

definition binary_exercises :: "ExerciseRecord list" where
  "binary_exercises =
     [exercise 11 2 3 2, exercise 12 12 3 4, exercise 13 12 13 4, exercise 14 123 12 6,
      exercise 15 123 123 3]"

text \<open>Five point objects as the builders create them, the last far out on the x-axis.\<close>

definition flagged_store :: store where
  "flagged_store =
     [\<lparr>px = 1, py = 0, isOutlier = Some False\<rparr>, \<lparr>px = 2, py = 0, isOutlier = Some False\<rparr>,
      \<lparr>px = 3, py = 0, isOutlier = Some False\<rparr>, \<lparr>px = 4, py = 0, isOutlier = Some False\<rparr>,
      \<lparr>px = 100, py = 0, isOutlier = Some False\<rparr>]"

section \<open>Outlier detector: results\<close>

lemma fold_flag_indices:
  "fold (\<lambda>(val, idx) acc. if P val then insert idx acc else acc) ps A
     = A \<union> {idx. \<exists>val. (val, idx) \<in> set ps \<and> P val}"
proof (induction ps arbitrary: A)
  case Nil
  show ?case by simp
next
  case (Cons p ps)
  obtain val idx where p: "p = (val, idx)" by (cases p)
  show ?case
    by (cases "P val") (auto simp: Cons.IH p)
qed

lemma flagged_zip_upt:
  "{idx. \<exists>val. (val, idx) \<in> set (zip vals [0..<length vals]) \<and> P val}
     = {i. i < length vals \<and> P (vals ! i)}"
proof (intro set_eqI iffI)
  fix i
  assume "i \<in> {idx. \<exists>val. (val, idx) \<in> set (zip vals [0..<length vals]) \<and> P val}"
  then show "i \<in> {i. i < length vals \<and> P (vals ! i)}"
    by (auto simp: in_set_zip)
next
  fix i
  assume "i \<in> {i. i < length vals \<and> P (vals ! i)}"
  then have "i < length vals" "P (vals ! i)" by simp_all
  then have "(vals ! i, i) \<in> set (zip vals [0..<length vals])"
    by (auto simp: in_set_zip intro!: exI [of _ i])
  then show "i \<in> {idx. \<exists>val. (val, idx) \<in> set (zip vals [0..<length vals]) \<and> P val}"
    using \<open>P (vals ! i)\<close> by blast
qed

text \<open>The two quartile reads never leave the array, so the \<^verbatim>\<open>undefined\<close> guard is dead.\<close>

lemma quartile_index_in_range:
  assumes "0 < n"
  shows "nat \<lfloor>real n * 0.25\<rfloor> < n" and "nat \<lfloor>real n * 0.75\<rfloor> < n"
proof -
  have "real n * 0.25 < real n" "real n * 0.75 < real n"
    using assms by simp_all
  then have "\<lfloor>real n * 0.25\<rfloor> < int n" "\<lfloor>real n * 0.75\<rfloor> < int n"
    by (simp_all add: floor_less_iff)
  then show "nat \<lfloor>real n * 0.25\<rfloor> < n" and "nat \<lfloor>real n * 0.75\<rfloor> < n"
    using assms by linarith+
qed

lemma detectOutliersIQR_set:
  assumes "\<not> length vals < 4"
  shows "detectOutliersIQR vals s =
          (let q1 = sort vals ! nat \<lfloor>0.25 * real (length vals)\<rfloor>;
               q3 = sort vals ! nat \<lfloor>0.75 * real (length vals)\<rfloor>
           in {i. i < length vals \<and>
                  (vals ! i < q1 - s * (q3 - q1) \<or> vals ! i > q3 + s * (q3 - q1))})"
proof -
  from assms have pos: "0 < length vals" by linarith
  have q1: "nth_opt (sort vals) (nat \<lfloor>real (length (sort vals)) * 0.25\<rfloor>)
              = Some (sort vals ! nat \<lfloor>0.25 * real (length vals)\<rfloor>)"
    using quartile_index_in_range(1) [OF pos] by (simp add: nth_opt_def mult.commute)
  have q3: "nth_opt (sort vals) (nat \<lfloor>real (length (sort vals)) * 0.75\<rfloor>)
              = Some (sort vals ! nat \<lfloor>0.75 * real (length vals)\<rfloor>)"
    using quartile_index_in_range(2) [OF pos] by (simp add: nth_opt_def mult.commute)
  show ?thesis
    unfolding detectOutliersIQR_def Let_def q1 q3
    using assms by (simp add: fold_flag_indices flagged_zip_upt)
qed

text \<open>
  Claim C1, as amended. On \<open>[1,2,3,4]\<close> no sensitivity from \<open>1.5\<close> upwards flags anything.
  On \<open>[1,2,3,100]\<close> with sensitivity \<open>1.5\<close> the result is empty as well, not \<open>{3}\<close>: with
  four values the upper quartile read is \<open>sorted[3]\<close>, the value \<open>100\<close> itself, so the
  upper fence is \<open>100 + 1.5 * 98\<close>.
\<close>

theorem detectOutliersIQR_examples:
  "(3 / 2 \<le> s \<longrightarrow> detectOutliersIQR [1, 2, 3, 4] s = {})
   \<and> detectOutliersIQR [1, 2, 3, 100] (3 / 2) = {}"
  by (simp add: detectOutliersIQR_def nth_opt_def upt_rec)

theorem detectOutliersIQR_examples_witness:
  "(3 / 2 \<le> (2 :: real)) \<and> detectOutliersIQR [1, 2, 3, 4] 2 = {}
   \<and> detectOutliersIQR [1, 2, 3, 100] (3 / 2) = {}"
  using detectOutliersIQR_examples [of 2] by simp

text \<open>The second example of claim C1 as the specification states it does not hold.\<close>

theorem detectOutliersIQR_100_counterexample:
  "detectOutliersIQR [1, 2, 3, 100] (3 / 2) \<noteq> {3}"
  by (simp add: detectOutliersIQR_def nth_opt_def upt_rec)

text \<open>
  Claim C6. For every sample and sensitivity \<^verbatim>\<open>detectOutliersIQR\<close> returns what the
  specification's rule describes: nothing for fewer than four values, and otherwise the
  original indices of the values strictly below \<open>q1 - s * (q3 - q1)\<close> or strictly above
  \<open>q3 + s * (q3 - q1)\<close>, with \<open>q1\<close> and \<open>q3\<close> read from the ascending sort at
  \<open>floor (0.25 * n)\<close> and \<open>floor (0.75 * n)\<close>.
\<close>

theorem detectOutliersIQR_refines_spec:
  "detectOutliersIQR vals s = iqr_outliers_spec vals s"
proof (cases "length vals < 4")
  case True
  then show ?thesis
    by (simp add: detectOutliersIQR_def iqr_outliers_spec_def)
next
  case False
  then show ?thesis
    by (simp add: detectOutliersIQR_set iqr_outliers_spec_def Let_def)
qed

theorem detectOutliersIQR_refines_spec_witness:
  "iqr_outliers_spec [1, 2, 3, 4, 100] (3 / 2) = {4} \<and> iqr_outliers_spec [5, 6, 7] (3 / 2) = {}"
proof -
  have "detectOutliersIQR [1, 2, 3, 4, 100] (3 / 2) = {4}"
    and "detectOutliersIQR [5, 6, 7] (3 / 2) = {}"
    by (simp_all add: detectOutliersIQR_def nth_opt_def upt_rec)
  then show ?thesis
    by (simp only: detectOutliersIQR_refines_spec [of "[1, 2, 3, 4, 100]" "3 / 2"]
        detectOutliersIQR_refines_spec [of "[5, 6, 7]" "3 / 2"])
qed

section \<open>Difficulty normalizer: results\<close>

text \<open>
  Claim C8. For a range whose bounds differ, the lower bound normalizes to \<open>0\<close> and the
  upper bound to \<open>100\<close>.
\<close>

theorem normalizeDifficulty_endpoints:
  "range_min r \<noteq> range_max r \<Longrightarrow>
     normalizeDifficulty (range_min r) r = 0 \<and> normalizeDifficulty (range_max r) r = 100"
  by (simp add: normalizeDifficulty_def)

theorem normalizeDifficulty_endpoints_witness:
  "range_min \<lparr>range_min = 2, range_max = 7\<rparr> \<noteq> range_max \<lparr>range_min = 2, range_max = 7\<rparr>
   \<and> normalizeDifficulty 2 \<lparr>range_min = 2, range_max = 7\<rparr> = 0
   \<and> normalizeDifficulty 7 \<lparr>range_min = 2, range_max = 7\<rparr> = 100"
  using normalizeDifficulty_endpoints [of "\<lparr>range_min = 2, range_max = 7\<rparr>"] by simp

section \<open>Composite score: results\<close>

text \<open>
  Claim C5. \<^verbatim>\<open>calculateCompositeScore\<close> is the arithmetic mean of the correlations that
  are not \<^verbatim>\<open>null\<close>, taking the correctness correlation by absolute value and the other
  two as they are, and it is \<open>0\<close> when all three are \<^verbatim>\<open>null\<close>.
\<close>

theorem calculateCompositeScore_is_mean:
  "calculateCompositeScore c = composite_spec c"
  by (cases "cl c"; cases "time c"; cases "correctness c")
     (simp_all add: calculateCompositeScore_def composite_spec_def List.map_filter_simps)

theorem calculateCompositeScore_is_mean_witness:
  "calculateCompositeScore \<lparr>cl = Some (1 / 2), time = None, correctness = Some (- 3 / 10)\<rparr> = 2 / 5
   \<and> composite_spec \<lparr>cl = None, time = None, correctness = None\<rparr> = 0"
  using calculateCompositeScore_is_mean [of "\<lparr>cl = Some (1 / 2), time = None, correctness = Some (- 3 / 10)\<rparr>"]
        calculateCompositeScore_is_mean [of "\<lparr>cl = None, time = None, correctness = None\<rparr>"]
  by (simp add: composite_spec_def List.map_filter_simps calculateCompositeScore_def)

section \<open>Difficulty scorer: results\<close>

lemma carry_step_commute: "carry_step strA strB = carry_step strB strA"
  by (auto simp: carry_step_def fun_eq_iff add.commute split: option.splits)

text \<open>
  Claim C9. The carry count and the digit count do not depend on the order of the two
  operands.
\<close>

theorem counts_commute:
  "countCarryovers a b = countCarryovers b a \<and> countTotalDigits a b = countTotalDigits b a"
  by (simp add: countCarryovers_def countTotalDigits_def Let_def max.commute
      carry_step_commute [of "rev (String_of a)"])

section \<open>Difficulty range: results\<close>

lemma fold_push_scores:
  "fold (\<lambda>ex scores. if R ex then scores else scores @ [f ex]) exs acc
     = acc @ map f (filter (\<lambda>ex. \<not> R ex) exs)"
  by (induction exs arbitrary: acc) simp_all

lemma range_scores_filtered: "range_scores exs w mf = filtered_scores exs w mf"
  by (simp add: range_scores_def filtered_scores_def fold_push_scores mode_rejected_def)

lemma Min_eq_Max_iff:
  fixes S :: "real set"
  assumes "finite S" "S \<noteq> {}"
  shows "Min S = Max S \<longleftrightarrow> (\<forall>s\<in>S. s = Min S)"
proof
  assume eq: "Min S = Max S"
  show "\<forall>s\<in>S. s = Min S"
  proof
    fix s assume "s \<in> S"
    then have "Min S \<le> s" "s \<le> Max S" using assms by simp_all
    with eq show "s = Min S" by simp
  qed
next
  assume all: "\<forall>s\<in>S. s = Min S"
  have "Max S \<in> S" using assms by simp
  with all show "Min S = Max S" by simp
qed

lemma calculateDifficultyRange_nonempty:
  assumes "filtered_scores exs w mf \<noteq> []"
  shows "calculateDifficultyRange exs w mf =
           (let mn = Min (set (filtered_scores exs w mf));
                mx = Max (set (filtered_scores exs w mf))
            in if mn = mx then \<lparr>range_min = mn - 1, range_max = mn + 1\<rparr>
               else \<lparr>range_min = mn, range_max = mx\<rparr>)"
proof -
  obtain s ss where sc: "filtered_scores exs w mf = s # ss"
    using assms by (cases "filtered_scores exs w mf") auto
  have "fold min ss s = Min (set (s # ss))" "fold max ss s = Max (set (s # ss))"
    by (simp_all only: Min.set_eq_fold Max.set_eq_fold)
  then show ?thesis
    by (simp add: calculateDifficultyRange_def range_scores_filtered sc Let_def)
qed

text \<open>
  Claim C7. \<^verbatim>\<open>calculateDifficultyRange\<close> returns \<open>{0, 100}\<close> when no exercise passes the
  mode filter, \<open>{m - 1, m + 1}\<close> when every filtered raw score equals \<open>m\<close>, and otherwise
  the least and the greatest filtered raw score.
\<close>

theorem calculateDifficultyRange_cases:
  "(filtered_scores exs w mf = [] \<longrightarrow>
      calculateDifficultyRange exs w mf = \<lparr>range_min = 0, range_max = 100\<rparr>)
   \<and> (filtered_scores exs w mf \<noteq> [] \<and> (\<forall>s\<in>set (filtered_scores exs w mf). s = m) \<longrightarrow>
      calculateDifficultyRange exs w mf = \<lparr>range_min = m - 1, range_max = m + 1\<rparr>)
   \<and> (filtered_scores exs w mf \<noteq> [] \<and> \<not> (\<exists>c. \<forall>s\<in>set (filtered_scores exs w mf). s = c) \<longrightarrow>
      calculateDifficultyRange exs w mf =
        \<lparr>range_min = Min (set (filtered_scores exs w mf)),
         range_max = Max (set (filtered_scores exs w mf))\<rparr>)"
proof (intro conjI impI)
  assume "filtered_scores exs w mf = []"
  then show "calculateDifficultyRange exs w mf = \<lparr>range_min = 0, range_max = 100\<rparr>"
    by (simp add: calculateDifficultyRange_def range_scores_filtered)
next
  let ?S = "set (filtered_scores exs w mf)"
  assume a: "filtered_scores exs w mf \<noteq> [] \<and> (\<forall>s\<in>?S. s = m)"
  then have ne: "?S \<noteq> {}" by simp
  have "Min ?S \<in> ?S" "Max ?S \<in> ?S" using ne by simp_all
  then have mn: "Min ?S = m" and mx: "Max ?S = m" using a by blast+
  from a have "filtered_scores exs w mf \<noteq> []" by simp
  then show "calculateDifficultyRange exs w mf = \<lparr>range_min = m - 1, range_max = m + 1\<rparr>"
    by (simp add: calculateDifficultyRange_nonempty Let_def mn mx)
next
  let ?S = "set (filtered_scores exs w mf)"
  assume a: "filtered_scores exs w mf \<noteq> [] \<and> \<not> (\<exists>c. \<forall>s\<in>?S. s = c)"
  then have ne: "?S \<noteq> {}" by simp
  have "Min ?S \<noteq> Max ?S"
    using a Min_eq_Max_iff [of ?S] ne by blast
  then show "calculateDifficultyRange exs w mf = \<lparr>range_min = Min ?S, range_max = Max ?S\<rparr>"
    using a by (simp add: calculateDifficultyRange_nonempty Let_def)
qed

text \<open>
  The two scenarios of the specification: \<open>345 + 78\<close> scores \<open>10\<close> and \<open>1000 + 1\<close>
  scores \<open>3.5\<close> under the default weights.
\<close>

lemma String_of_examples:
  "String_of 345 = ''345''" "String_of 78 = ''78''" "String_of 1000 = ''1000''" "String_of 1 = ''1''"
  "String_of (Suc 0) = ''1''" "String_of 2 = ''2''"
  by (simp_all add: String_of.simps digit_char_def)

lemma score_345_78: "calculateDifficultyScore (exercise 7 345 78 3) DEFAULT_DIFFICULTY_WEIGHTS = 10"
  by (simp add: calculateDifficultyScore_def exercise_def DEFAULT_DIFFICULTY_WEIGHTS_def countTotalDigits_def
      countCarryovers_def countZeros_def String_of_examples carry_step_def parseInt_def
      char_or_zero_def upt_rec)

lemma score_1000_1: "calculateDifficultyScore (exercise 8 1000 1 4) DEFAULT_DIFFICULTY_WEIGHTS = 7 / 2"
  by (simp add: calculateDifficultyScore_def exercise_def DEFAULT_DIFFICULTY_WEIGHTS_def countTotalDigits_def
      countCarryovers_def countZeros_def String_of_examples carry_step_def parseInt_def
      char_or_zero_def upt_rec)


theorem calculateDifficultyRange_cases_witness:
  "filtered_scores [exercise 7 345 78 3, exercise 8 1000 1 4] DEFAULT_DIFFICULTY_WEIGHTS (MF_mode Serious) = []
   \<and> calculateDifficultyRange [exercise 7 345 78 3, exercise 8 1000 1 4] DEFAULT_DIFFICULTY_WEIGHTS (MF_mode Serious)
       = \<lparr>range_min = 0, range_max = 100\<rparr>
   \<and> filtered_scores [exercise 7 345 78 3] DEFAULT_DIFFICULTY_WEIGHTS MF_all = [10]
   \<and> calculateDifficultyRange [exercise 7 345 78 3] DEFAULT_DIFFICULTY_WEIGHTS MF_all
       = \<lparr>range_min = 10 - 1, range_max = 10 + 1\<rparr>
   \<and> filtered_scores [exercise 7 345 78 3, exercise 8 1000 1 4] DEFAULT_DIFFICULTY_WEIGHTS MF_all \<noteq> []
   \<and> \<not> (\<exists>c. \<forall>s\<in>set (filtered_scores [exercise 7 345 78 3, exercise 8 1000 1 4] DEFAULT_DIFFICULTY_WEIGHTS MF_all). s = c)
   \<and> calculateDifficultyRange [exercise 7 345 78 3, exercise 8 1000 1 4] DEFAULT_DIFFICULTY_WEIGHTS MF_all
       = \<lparr>range_min = 7 / 2, range_max = 10\<rparr>"
proof -
  let ?two = "[exercise 7 345 78 3, exercise 8 1000 1 4]"
  have f0: "filtered_scores ?two DEFAULT_DIFFICULTY_WEIGHTS (MF_mode Serious) = []"
    by (simp add: filtered_scores_def exercise_def)
  have f1: "filtered_scores [exercise 7 345 78 3] DEFAULT_DIFFICULTY_WEIGHTS MF_all = [10]"
    by (simp add: filtered_scores_def score_345_78)
  have f2: "filtered_scores ?two DEFAULT_DIFFICULTY_WEIGHTS MF_all = [10, 7 / 2]"
    by (simp add: filtered_scores_def score_345_78 score_1000_1 [unfolded One_nat_def])
  have h1: "filtered_scores [exercise 7 345 78 3] DEFAULT_DIFFICULTY_WEIGHTS MF_all \<noteq> []
            \<and> (\<forall>s\<in>set (filtered_scores [exercise 7 345 78 3] DEFAULT_DIFFICULTY_WEIGHTS MF_all). s = 10)"
    unfolding f1 by simp
  have h2: "filtered_scores ?two DEFAULT_DIFFICULTY_WEIGHTS MF_all \<noteq> []
            \<and> \<not> (\<exists>c. \<forall>s\<in>set (filtered_scores ?two DEFAULT_DIFFICULTY_WEIGHTS MF_all). s = c)"
    unfolding f2 by auto
  have m2: "Min (set (filtered_scores ?two DEFAULT_DIFFICULTY_WEIGHTS MF_all)) = 7 / 2"
           "Max (set (filtered_scores ?two DEFAULT_DIFFICULTY_WEIGHTS MF_all)) = 10"
    unfolding f2 by simp_all
  note c0 = calculateDifficultyRange_cases [of ?two DEFAULT_DIFFICULTY_WEIGHTS "MF_mode Serious" 0]
  note c1 = calculateDifficultyRange_cases [of "[exercise 7 345 78 3]" DEFAULT_DIFFICULTY_WEIGHTS MF_all 10]
  note c2 = calculateDifficultyRange_cases [of ?two DEFAULT_DIFFICULTY_WEIGHTS MF_all 0]
  have r0: "calculateDifficultyRange ?two DEFAULT_DIFFICULTY_WEIGHTS (MF_mode Serious)
              = \<lparr>range_min = 0, range_max = 100\<rparr>"
    using c0 f0 by blast
  have r1: "calculateDifficultyRange [exercise 7 345 78 3] DEFAULT_DIFFICULTY_WEIGHTS MF_all
              = \<lparr>range_min = 10 - 1, range_max = 10 + 1\<rparr>"
    using c1 h1 by blast
  have r2: "calculateDifficultyRange ?two DEFAULT_DIFFICULTY_WEIGHTS MF_all
              = \<lparr>range_min = 7 / 2, range_max = 10\<rparr>"
    using c2 h2 unfolding m2 by blast
  show ?thesis
    using f0 r0 f1 r1 h2 r2 by blast
qed

section \<open>Outlier flags on shared point objects: results\<close>

lemma set_isOutlier_length [simp]: "length (set_isOutlier r b h) = length h"
  by (simp add: set_isOutlier_def)

lemma set_isOutlier_nth:
  "i < length h \<Longrightarrow>
     set_isOutlier r b h ! i = (if i = r then (h ! i)\<lparr>isOutlier := Some b\<rparr> else h ! i)"
  by (simp add: set_isOutlier_def nth_list_update)

lemma fold_set_isOutlier_length [simp]:
  "length (fold (\<lambda>(point, idx). set_isOutlier point (F idx)) ps h) = length h"
  by (induction ps arbitrary: h) (auto split: prod.splits)

lemma fold_set_isOutlier_px:
  "i < length h \<Longrightarrow>
     px (fold (\<lambda>(point, idx). set_isOutlier point (F idx)) ps h ! i) = px (h ! i)
   \<and> py (fold (\<lambda>(point, idx). set_isOutlier point (F idx)) ps h ! i) = py (h ! i)"
proof (induction ps arbitrary: h)
  case Nil
  show ?case by simp
next
  case (Cons p ps)
  obtain point idx where p: "p = (point, idx)" by (cases p)
  have "i < length (set_isOutlier point (F idx) h)" using Cons.prems by simp
  from Cons.IH [OF this] show ?case
    using Cons.prems by (simp add: p set_isOutlier_nth)
qed

lemma fold_flags_upt:
  "n \<le> length h \<Longrightarrow>
     fold (\<lambda>(point, idx). set_isOutlier point (F idx)) (zip [0..<n] [0..<n]) h
       = map (\<lambda>(p, i). if i < n then p\<lparr>isOutlier := Some (F i)\<rparr> else p) (zip h [0..<length h])"
proof (induction n)
  case 0
  show ?case by (intro nth_equalityI) auto
next
  case (Suc n)
  then have n: "n < length h" by simp
  have "zip [0..<Suc n] [0..<Suc n] = zip [0..<n] [0..<n] @ [(n, n)]"
    by simp
  then have "fold (\<lambda>(point, idx). set_isOutlier point (F idx)) (zip [0..<Suc n] [0..<Suc n]) h
      = set_isOutlier n (F n)
          (map (\<lambda>(p, i). if i < n then p\<lparr>isOutlier := Some (F i)\<rparr> else p) (zip h [0..<length h]))"
    using Suc by simp
  also have "\<dots> = map (\<lambda>(p, i). if i < Suc n then p\<lparr>isOutlier := Some (F i)\<rparr> else p)
                       (zip h [0..<length h])"
    using n by (intro nth_equalityI) (auto simp: set_isOutlier_nth less_Suc_eq)
  finally show ?case .
qed


lemma read_all_refs:
  "length H = n \<Longrightarrow> map (\<lambda>r. H ! r) [0..<n] = H"
  by (intro nth_equalityI) simp_all

lemma applyOutlierDetection_fresh_flags:
  "applyOutlierDetection_fresh ps s en =
     map (\<lambda>(p, i). p\<lparr>isOutlier :=
                        Some (en \<and> 4 \<le> length ps \<and>
                              (i \<in> detectOutliersIQR (map px ps) s
                               \<or> i \<in> detectOutliersIQR (map py ps) s))\<rparr>)
         (zip ps [0..<length ps])"
    (is "_ = ?R")
proof (cases "\<not> en \<or> length ps < 4")
  case True
  have "fold (\<lambda>point. set_isOutlier point False) [0..<length ps] ps
          = fold (\<lambda>(point, idx). set_isOutlier point False) (zip [0..<length ps] [0..<length ps]) ps"
    by (simp only: zip_same_conv_map fold_map comp_def prod.case)
  also have "\<dots> = map (\<lambda>(p, i). if i < length ps then p\<lparr>isOutlier := Some False\<rparr> else p)
                       (zip ps [0..<length ps])"
    by (rule fold_flags_upt) simp
  also have "\<dots> = ?R"
    using True by (intro nth_equalityI) auto
  finally have H: "fold (\<lambda>point. set_isOutlier point False) [0..<length ps] ps = ?R" .
  have "applyOutlierDetection ps [0..<length ps] s en = (?R, [0..<length ps])"
    using True by (simp add: applyOutlierDetection_def Let_def H)
  then show ?thesis
    by (simp only: applyOutlierDetection_fresh_def Let_def prod.case)
       (rule read_all_refs, simp)
next
  case False
  let ?F = "\<lambda>i. i \<in> detectOutliersIQR (map px ps) s \<or> i \<in> detectOutliersIQR (map py ps) s"
  have vals: "map (\<lambda>p. px (ps ! p)) [0..<length ps] = map px ps"
             "map (\<lambda>p. py (ps ! p)) [0..<length ps] = map py ps"
    by (intro nth_equalityI; simp)+
  have "fold (\<lambda>(point, idx). set_isOutlier point (?F idx)) (zip [0..<length ps] [0..<length ps]) ps
          = map (\<lambda>(p, i). if i < length ps then p\<lparr>isOutlier := Some (?F i)\<rparr> else p)
                (zip ps [0..<length ps])"
    by (rule fold_flags_upt) simp
  also have "\<dots> = ?R"
    using False by (intro nth_equalityI) auto
  finally have H: "fold (\<lambda>(point, idx). set_isOutlier point (?F idx))
                     (zip [0..<length ps] [0..<length ps]) ps = ?R" .
  have "applyOutlierDetection ps [0..<length ps] s en = (?R, [0..<length ps])"
    using False by (simp add: applyOutlierDetection_def Let_def vals H)
  then show ?thesis
    by (simp only: applyOutlierDetection_fresh_def Let_def prod.case)
       (rule read_all_refs, simp)
qed

lemma fold_disable_coordinates:
  "i < length h \<Longrightarrow>
     px (fold (\<lambda>point. set_isOutlier point False) ps h ! i) = px (h ! i)
   \<and> py (fold (\<lambda>point. set_isOutlier point False) ps h ! i) = py (h ! i)"
proof -
  assume i: "i < length h"
  have "fold (\<lambda>point. set_isOutlier point False) ps h
          = fold (\<lambda>(point, idx). set_isOutlier point False) (map (\<lambda>p. (p, p)) ps) h"
    by (simp only: fold_map comp_def prod.case)
  then show ?thesis
    using fold_set_isOutlier_px [OF i, of "\<lambda>_. False"] by simp
qed

lemma applyOutlierDetection_keeps_coordinates:
  assumes "r < length h"
  shows "px (fst (applyOutlierDetection h points s en) ! r) = px (h ! r)
       \<and> py (fst (applyOutlierDetection h points s en) ! r) = py (h ! r)"
  using assms
  by (simp add: applyOutlierDetection_def Let_def fold_disable_coordinates fold_set_isOutlier_px)

lemma applyOutlierDetection_returns_same_refs:
  "snd (applyOutlierDetection h points s en) = points"
  by (simp add: applyOutlierDetection_def Let_def)

lemma flagged_store_outliers:
  "detectOutliersIQR [1, 2, 3, 4, 100] (3 / 2) = {4}" "detectOutliersIQR [0, 0, 0, 0, 0] (3 / 2) = {}"
  by (simp_all add: detectOutliersIQR_def nth_opt_def upt_rec)

text \<open>
  Claim C3 does not hold of the code. The array copy is shallow: the call assigns the
  \<^verbatim>\<open>isOutlier\<close> field of the very objects the caller passed. With detection enabled the
  fifth object of the store above changes from \<^verbatim>\<open>false\<close> to \<^verbatim>\<open>true\<close>; with detection
  disabled a point that came in flagged leaves unflagged. Only the coordinates are kept,
  as \<open>applyOutlierDetection_keeps_coordinates\<close> shows.
\<close>

theorem applyOutlierDetection_overwrites_input_flags:
  "isOutlier (flagged_store ! 4) = Some False
   \<and> isOutlier (fst (applyOutlierDetection flagged_store [0, 1, 2, 3, 4] (3 / 2) True) ! 4) = Some True
   \<and> isOutlier ([\<lparr>px = 1, py = 2, isOutlier = Some True\<rparr>] ! 0) = Some True
   \<and> isOutlier (fst (applyOutlierDetection [\<lparr>px = 1, py = 2, isOutlier = Some True\<rparr>] [0] (3 / 2) False) ! 0)
       = Some False"
  by (simp add: applyOutlierDetection_def flagged_store_def flagged_store_outliers
      set_isOutlier_def upt_rec)

theorem applyOutlierDetection_overwrites_input_flags_witness:
  "isOutlier (fst (applyOutlierDetection flagged_store [0, 1, 2, 3, 4] (3 / 2) True) ! 4)
     \<noteq> isOutlier (flagged_store ! 4)"
  using applyOutlierDetection_overwrites_input_flags by simp

section \<open>Correctness points of the optimizer and of the view: results\<close>

lemma String_of_binary:
  "String_of 2 = ''2''" "String_of 3 = ''3''" "String_of 12 = ''12''" "String_of 13 = ''13''"
  "String_of 123 = ''123''" "String_of 5 = ''5''" "String_of 15 = ''15''" "String_of 25 = ''25''"
  "String_of 135 = ''135''" "String_of 246 = ''246''"
  by (simp_all add: String_of.simps digit_char_def)

lemma binary_scores:
  "map (\<lambda>ex. calculateDifficultyScore ex DEFAULT_DIFFICULTY_WEIGHTS) binary_exercises = [2, 3, 4, 5, 6]"
  by (simp add: binary_exercises_def calculateDifficultyScore_def exercise_def
      DEFAULT_DIFFICULTY_WEIGHTS_def countTotalDigits_def countCarryovers_def countZeros_def
      String_of_binary carry_step_def parseInt_def char_or_zero_def upt_rec)

lemma binary_range:
  "calculateDifficultyRange binary_exercises DEFAULT_DIFFICULTY_WEIGHTS MF_all
     = \<lparr>range_min = 2, range_max = 6\<rparr>"
proof -
  have "range_scores binary_exercises DEFAULT_DIFFICULTY_WEIGHTS MF_all = [2, 3, 4, 5, 6]"
    using binary_scores by (simp add: range_scores_filtered filtered_scores_def)
  then show ?thesis
    by (simp add: calculateDifficultyRange_def)
qed

lemma binary_points:
  "correctnessPoints DEFAULT_DIFFICULTY_WEIGHTS binary_exercises MF_all \<lparr>range_min = 2, range_max = 6\<rparr>
     = [\<lparr>px = 0, py = 0, isOutlier = Some False\<rparr>, \<lparr>px = 25, py = 0, isOutlier = Some False\<rparr>,
        \<lparr>px = 50, py = 0, isOutlier = Some False\<rparr>, \<lparr>px = 75, py = 0, isOutlier = Some False\<rparr>,
        \<lparr>px = 100, py = 1, isOutlier = Some False\<rparr>]"
proof -
  have sc: "calculateDifficultyScore (exercise 11 2 3 2) DEFAULT_DIFFICULTY_WEIGHTS = 2"
    "calculateDifficultyScore (exercise 12 12 3 4) DEFAULT_DIFFICULTY_WEIGHTS = 3"
    "calculateDifficultyScore (exercise 13 12 13 4) DEFAULT_DIFFICULTY_WEIGHTS = 4"
    "calculateDifficultyScore (exercise 14 123 12 6) DEFAULT_DIFFICULTY_WEIGHTS = 5"
    "calculateDifficultyScore (exercise 15 123 123 3) DEFAULT_DIFFICULTY_WEIGHTS = 6"
    using binary_scores by (simp_all add: binary_exercises_def)
  have meta: "\<And>i a b k. ex_id (exercise i a b k) = Some i" "\<And>i a b k. keystrokeCount (exercise i a b k) = Some k"
    "\<And>i a b k. answer (exercise i a b k) = a + b" "\<And>i a b k. ex_mode (exercise i a b k) = Trial"
    by (simp_all add: exercise_def)
  show ?thesis
    by (simp add: correctnessPoints_def binary_exercises_def sc meta falsy_def mode_rejected_def
        String_of_binary normalizeDifficulty_def)
qed

lemma binary_outliers:
  "detectOutliersIQR [0, 25, 50, 75, 100] (3 / 2) = {}"
  "detectOutliersIQR [0, 0, 0, 0, 1] (3 / 2) = {4}"
  by (simp_all add: detectOutliersIQR_def nth_opt_def upt_rec)

lemma binary_optimizer_points:
  "correctnessPointsWithOutliers DEFAULT_DIFFICULTY_WEIGHTS binary_exercises MF_all True (3 / 2)
     = [\<lparr>px = 0, py = 0, isOutlier = Some False\<rparr>, \<lparr>px = 25, py = 0, isOutlier = Some False\<rparr>,
        \<lparr>px = 50, py = 0, isOutlier = Some False\<rparr>, \<lparr>px = 75, py = 0, isOutlier = Some False\<rparr>,
        \<lparr>px = 100, py = 1, isOutlier = Some True\<rparr>]"
  by (simp add: correctnessPointsWithOutliers_def binary_range binary_points
      applyOutlierDetection_fresh_flags binary_outliers upt_rec)

lemma binary_view_points:
  "difficultyVsCorrectness binary_exercises MF_all DEFAULT_DIFFICULTY_WEIGHTS (3 / 2)
     = [\<lparr>px = 0, py = 0, isOutlier = Some False\<rparr>, \<lparr>px = 25, py = 0, isOutlier = Some False\<rparr>,
        \<lparr>px = 50, py = 0, isOutlier = Some False\<rparr>, \<lparr>px = 75, py = 0, isOutlier = Some False\<rparr>,
        \<lparr>px = 100, py = 1, isOutlier = Some False\<rparr>]"
  by (simp add: difficultyVsCorrectness_def binary_range binary_points binary_outliers upt_rec)

text \<open>
  Claim C2 does not hold of the weight optimizer. \<^verbatim>\<open>calculateCorrelationsForWeights\<close>
  hands its correctness points to \<^verbatim>\<open>applyOutlierDetection\<close>, which tests both
  axes, where the correlation view tests the x-axis only. On the five exercises above no
  difficulty is an outlier, yet the optimizer flags the one correct answer (the binary
  y-values \<open>0,0,0,0,1\<close> have both quartiles at \<open>0\<close>), drops it, and reports no
  correctness correlation; the view, on the same data and weights, flags nothing and
  has one.
\<close>

theorem optimizer_flags_binary_axis:
  "map isOutlier (correctnessPointsWithOutliers DEFAULT_DIFFICULTY_WEIGHTS binary_exercises MF_all True (3 / 2))
     = [Some False, Some False, Some False, Some False, Some True]
   \<and> detectOutliersIQR
        (map px (correctnessPointsWithOutliers DEFAULT_DIFFICULTY_WEIGHTS binary_exercises MF_all True (3 / 2)))
        (3 / 2) = {}
   \<and> map isOutlier (difficultyVsCorrectness binary_exercises MF_all DEFAULT_DIFFICULTY_WEIGHTS (3 / 2))
     = [Some False, Some False, Some False, Some False, Some False]
   \<and> correctness (calculateCorrelationsForWeights DEFAULT_DIFFICULTY_WEIGHTS binary_exercises [] MF_all
                     True (3 / 2)) = None
   \<and> calculateCorrelation
        (filter not_outlier
           (difficultyVsCorrectness binary_exercises MF_all DEFAULT_DIFFICULTY_WEIGHTS (3 / 2))) \<noteq> None"
  by (simp add: binary_optimizer_points binary_view_points binary_outliers
      calculateCorrelationsForWeights_def Let_def not_outlier_def calculateCorrelation_def)

section \<open>Grid search: results\<close>

lemma calculateCorrelationsForWeights_no_exercises:
  "calculateCorrelationsForWeights w [] evaluations modeFilter detectOutliers s
     = \<lparr>cl = None, time = None, correctness = None\<rparr>"
  by (simp add: calculateCorrelationsForWeights_def correctnessPointsWithOutliers_def
      timePoints_def ratingPoints_def correctnessPoints_def applyOutlierDetection_fresh_flags
      calculateCorrelation_def Let_def)

lemma calculateCompositeScore_nulls:
  "calculateCompositeScore \<lparr>cl = None, time = None, correctness = None\<rparr> = 0"
  by (simp add: calculateCompositeScore_def)

lemma grid_body_first:
  "compositeScore (bestResult st) = NegInfinity \<Longrightarrow>
     bestResult (grid_body [] evaluations modeFilter detectOutliers s onProgress n w st)
       = \<lparr>weights = w, correlations = \<lparr>cl = None, time = None, correctness = None\<rparr>,
          compositeScore = Num 0\<rparr>"
  by (simp add: grid_body_def calculateCorrelationsForWeights_no_exercises
      calculateCompositeScore_nulls score_gt_def Let_def)

lemma grid_body_keeps:
  "compositeScore (bestResult st) = Num 0 \<Longrightarrow>
     bestResult (grid_body [] evaluations modeFilter detectOutliers s onProgress n w st)
       = bestResult st"
  by (simp add: grid_body_def calculateCorrelationsForWeights_no_exercises
      calculateCompositeScore_nulls score_gt_def Let_def)

lemma inner_loop_keeps:
  "compositeScore (bestResult st) = Num 0 \<Longrightarrow>
     bestResult (fold (\<lambda>z. grid_body [] evaluations modeFilter detectOutliers s onProgress n (W z)) zs st)
       = bestResult st"
  by (induction zs arbitrary: st) (simp_all add: grid_body_keeps)

lemma middle_loop_keeps:
  "compositeScore (bestResult st) = Num 0 \<Longrightarrow>
     bestResult (fold (\<lambda>c. fold (\<lambda>z. grid_body [] evaluations modeFilter detectOutliers s onProgress n
                                     (W c z)) zs) cs st)
       = bestResult st"
  by (induction cs arbitrary: st) (simp_all add: inner_loop_keeps)

lemma outer_loop_keeps:
  "compositeScore (bestResult st) = Num 0 \<Longrightarrow>
     bestResult (fold (\<lambda>d. fold (\<lambda>c. fold (\<lambda>z. grid_body [] evaluations modeFilter detectOutliers s
                                     onProgress n (W d c z)) zs) cs) ds st)
       = bestResult st"
  by (induction ds arbitrary: st) (simp_all add: middle_loop_keeps)

lemma inner_loop_first:
  assumes "compositeScore (bestResult st) = NegInfinity"
  shows "bestResult (fold (\<lambda>z. grid_body [] evaluations modeFilter detectOutliers s onProgress n (W z))
                       (z0 # zs) st)
       = \<lparr>weights = W z0, correlations = \<lparr>cl = None, time = None, correctness = None\<rparr>,
          compositeScore = Num 0\<rparr>"
proof -
  let ?st1 = "grid_body [] evaluations modeFilter detectOutliers s onProgress n (W z0) st"
  have b: "bestResult ?st1 = \<lparr>weights = W z0,
             correlations = \<lparr>cl = None, time = None, correctness = None\<rparr>, compositeScore = Num 0\<rparr>"
    by (rule grid_body_first [OF assms])
  then have "compositeScore (bestResult ?st1) = Num 0" by simp
  from inner_loop_keeps [OF this] b show ?thesis by simp
qed

lemma middle_loop_first:
  assumes "compositeScore (bestResult st) = NegInfinity"
  shows "bestResult (fold (\<lambda>c. fold (\<lambda>z. grid_body [] evaluations modeFilter detectOutliers s
                                           onProgress n (W c z)) (z0 # zs)) (c0 # cs) st)
       = \<lparr>weights = W c0 z0, correlations = \<lparr>cl = None, time = None, correctness = None\<rparr>,
          compositeScore = Num 0\<rparr>"
proof -
  let ?row = "\<lambda>c. fold (\<lambda>z. grid_body [] evaluations modeFilter detectOutliers s onProgress n (W c z))
                       (z0 # zs)"
  have b: "bestResult (?row c0 st) = \<lparr>weights = W c0 z0,
             correlations = \<lparr>cl = None, time = None, correctness = None\<rparr>, compositeScore = Num 0\<rparr>"
    by (rule inner_loop_first [OF assms])
  then have "compositeScore (bestResult (?row c0 st)) = Num 0" by simp
  then have "bestResult (fold ?row cs (?row c0 st)) = bestResult (?row c0 st)"
    by (rule middle_loop_keeps)
  with b show ?thesis by (simp only: fold_Cons comp_apply)
qed

lemma outer_loop_first:
  assumes "compositeScore (bestResult st) = NegInfinity"
  shows "bestResult (fold (\<lambda>d. fold (\<lambda>c. fold (\<lambda>z. grid_body [] evaluations modeFilter detectOutliers s
                                           onProgress n (W d c z)) (z0 # zs)) (c0 # cs)) (d0 # ds) st)
       = \<lparr>weights = W d0 c0 z0, correlations = \<lparr>cl = None, time = None, correctness = None\<rparr>,
          compositeScore = Num 0\<rparr>"
proof -
  let ?plane = "\<lambda>d. fold (\<lambda>c. fold (\<lambda>z. grid_body [] evaluations modeFilter detectOutliers s
                                        onProgress n (W d c z)) (z0 # zs)) (c0 # cs)"
  have b: "bestResult (?plane d0 st) = \<lparr>weights = W d0 c0 z0,
             correlations = \<lparr>cl = None, time = None, correctness = None\<rparr>, compositeScore = Num 0\<rparr>"
    by (rule middle_loop_first [OF assms])
  then have "compositeScore (bestResult (?plane d0 st)) = Num 0" by simp
  then have "bestResult (fold ?plane ds (?plane d0 st)) = bestResult (?plane d0 st)"
    by (rule outer_loop_keeps)
  with b show ?thesis by (simp only: fold_Cons comp_apply)
qed

lemma grid_axes_start:
  "digitsValues_from 0 = 0 # digitsValues_from 0.2"
  "carryoversValues_from 0 = 0 # carryoversValues_from 0.4"
  "zerosValues_from 0 = 0 # zerosValues_from 0.2"
  by (simp_all add: digitsValues_from.simps [of 0] carryoversValues_from.simps [of 0]
      zerosValues_from.simps [of 0] Math_round_def)

lemma gridSearch_no_exercises_result:
  "fst (gridSearch [] evaluations modeFilter detectOutliers s onProgress)
     = \<lparr>weights = \<lparr>digits = 0, carryovers = 0, zeros = 0\<rparr>,
        correlations = \<lparr>cl = None, time = None, correctness = None\<rparr>,
        compositeScore = Num 0\<rparr>"
proof -
  let ?n = "length (digitsValues_from 0) * length (carryoversValues_from 0) * length (zerosValues_from 0)"
  let ?st0 = "\<lparr>bestResult =
                 \<lparr>weights = \<lparr>digits = 1.0, carryovers = 2.5, zeros = 0.5\<rparr>,
                  correlations = \<lparr>cl = None, time = None, correctness = None\<rparr>,
                  compositeScore = NegInfinity\<rparr>,
               currentCombination = 0, reports = []\<rparr>"
  have start: "compositeScore (bestResult ?st0) = NegInfinity" by simp
  have "bestResult
          (fold (\<lambda>d. fold (\<lambda>c. fold (\<lambda>z. grid_body [] evaluations modeFilter detectOutliers s
                    onProgress ?n \<lparr>digits = d, carryovers = c, zeros = z\<rparr>)
                  (zerosValues_from 0)) (carryoversValues_from 0)) (digitsValues_from 0) ?st0)
        = \<lparr>weights = \<lparr>digits = 0, carryovers = 0, zeros = 0\<rparr>,
           correlations = \<lparr>cl = None, time = None, correctness = None\<rparr>,
           compositeScore = Num 0\<rparr>"
    unfolding grid_axes_start
    by (rule outer_loop_first [OF start,
          where W = "\<lambda>d c z. \<lparr>digits = d, carryovers = c, zeros = z\<rparr>"])
  then show ?thesis
    unfolding gridSearch_def Let_def by simp
qed

text \<open>
  Claim C4. With no exercises every grid cell has three \<^verbatim>\<open>null\<close> correlations and the
  composite score \<open>0\<close>; the first cell \<open>(0, 0, 0)\<close> beats the initial \<^verbatim>\<open>-Infinity\<close> and
  no later cell beats it. So \<^verbatim>\<open>gridSearch\<close> resolves to the weights \<open>{0, 0, 0}\<close> with
  composite score \<open>0\<close>, whatever the evaluations, the mode filter, the outlier settings
  and the progress callback are, and never to the initial incumbent with the default
  weights.
\<close>

theorem gridSearch_no_exercises:
  "weights (fst (gridSearch [] evaluations modeFilter detectOutliers s onProgress))
     = \<lparr>digits = 0, carryovers = 0, zeros = 0\<rparr>
   \<and> compositeScore (fst (gridSearch [] evaluations modeFilter detectOutliers s onProgress)) = Num 0
   \<and> weights (fst (gridSearch [] evaluations modeFilter detectOutliers s onProgress))
       \<noteq> DEFAULT_DIFFICULTY_WEIGHTS"
  by (simp add: gridSearch_no_exercises_result DEFAULT_DIFFICULTY_WEIGHTS_def)

section \<open>Correlation engine: results\<close>

lemma foldl_reduce_sum:
  "foldl (\<lambda>sum p. sum + f p) a ps = a + sum_list (map f ps)"
  for a :: real
  by (induction ps arbitrary: a) simp_all

lemma sum_list_square_nonneg: "0 \<le> sum_list (map (\<lambda>p. (f p :: real) * f p) ps)"
  by (rule sum_list_nonneg) auto

lemma sum_list_squares_zero:
  "sum_list (map (\<lambda>p. (g p :: real) * g p) ps) = 0 \<Longrightarrow> sum_list (map (\<lambda>p. f p * g p) ps) = 0"
proof (induction ps)
  case Nil
  show ?case by simp
next
  case (Cons p ps)
  have r: "0 \<le> sum_list (map (\<lambda>p. g p * g p) ps)" by (rule sum_list_square_nonneg)
  have h: "0 \<le> g p * g p" by simp
  from Cons.prems have "g p * g p + sum_list (map (\<lambda>p. g p * g p) ps) = 0" by simp
  with r h have "g p * g p = 0" "sum_list (map (\<lambda>p. g p * g p) ps) = 0" by linarith+
  then show ?case using Cons.IH by simp
qed

lemma sum_list_linear:
  "sum_list (map (\<lambda>p. (c :: real) * f p) ps) = c * sum_list (map f ps)"
  by (induction ps) (simp_all add: algebra_simps)

lemma sum_list_plus:
  "sum_list (map (\<lambda>p. (f p :: real) + g p) ps) = sum_list (map f ps) + sum_list (map g ps)"
  by (induction ps) simp_all

lemma sum_list_constant:
  "sum_list (map (\<lambda>p. (c :: real)) ps) = real (length ps) * c"
  by (induction ps) (simp_all add: algebra_simps)

text \<open>The Cauchy-Schwarz inequality for two real sequences over one list.\<close>

lemma cauchy_schwarz_list:
  fixes f g :: "'a \<Rightarrow> real"
  shows "(sum_list (map (\<lambda>p. f p * g p) ps))\<^sup>2
           \<le> sum_list (map (\<lambda>p. f p * f p) ps) * sum_list (map (\<lambda>p. g p * g p) ps)"
proof -
  let ?A = "sum_list (map (\<lambda>p. f p * f p) ps)"
  let ?B = "sum_list (map (\<lambda>p. g p * g p) ps)"
  let ?C = "sum_list (map (\<lambda>p. f p * g p) ps)"
  show ?thesis
  proof (cases "?B = 0")
    case True
    then have "?C = 0" by (rule sum_list_squares_zero)
    with True show ?thesis by simp
  next
    case False
    have Bpos: "0 < ?B" using False sum_list_square_nonneg [of g ps] by linarith
    have "0 \<le> sum_list (map (\<lambda>p. (?B * f p - ?C * g p) * (?B * f p - ?C * g p)) ps)"
      by (rule sum_list_square_nonneg)
    also have "(\<lambda>p. (?B * f p - ?C * g p) * (?B * f p - ?C * g p))
             = (\<lambda>p. (?B * ?B) * (f p * f p) + ((- 2 * ?B * ?C) * (f p * g p) + (?C * ?C) * (g p * g p)))"
      by (rule ext) (simp add: algebra_simps)
    also have "sum_list (map \<dots> ps) = (?B * ?B) * ?A + ((- 2 * ?B * ?C) * ?C + (?C * ?C) * ?B)"
      by (simp only: sum_list_plus sum_list_linear)
    also have "\<dots> = ?B * (?A * ?B - ?C\<^sup>2)"
      by (simp add: algebra_simps power2_eq_square)
    finally have "0 \<le> ?B * (?A * ?B - ?C\<^sup>2)" .
    with Bpos have "0 \<le> ?A * ?B - ?C\<^sup>2"
      by (simp add: zero_le_mult_iff)
    then show ?thesis by simp
  qed
qed


text \<open>
  Sums of products of the deviations \<open>n * f p - F\<close>: the three sums-of-products terms
  of the correlation formula are such sums, up to the factor \<open>n\<close>.
\<close>

lemma centred_products:
  fixes f g :: "'a \<Rightarrow> real" and ps :: "'a list"
  defines "n \<equiv> real (length ps)"
  defines "F \<equiv> sum_list (map f ps)" and "G \<equiv> sum_list (map g ps)"
  shows "sum_list (map (\<lambda>p. (n * f p - F) * (n * g p - G)) ps)
           = n * (n * sum_list (map (\<lambda>p. f p * g p) ps) - F * G)"
proof -
  have "(\<lambda>p. (n * f p - F) * (n * g p - G))
          = (\<lambda>p. (n * n) * (f p * g p) + ((- n * G) * f p + ((- n * F) * g p + F * G)))"
    by (rule ext) (simp add: algebra_simps)
  then have "sum_list (map (\<lambda>p. (n * f p - F) * (n * g p - G)) ps)
          = sum_list (map (\<lambda>p. (n * n) * (f p * g p)
                                 + ((- n * G) * f p + ((- n * F) * g p + F * G))) ps)"
    by (simp only:)
  also have "\<dots> = (n * n) * sum_list (map (\<lambda>p. f p * g p) ps)
                   + ((- n * G) * sum_list (map f ps)
                      + ((- n * F) * sum_list (map g ps) + F * (real (length ps) * G)))"
    by (simp only: sum_list_plus sum_list_linear sum_list_constant)
  also have "\<dots> = n * (n * sum_list (map (\<lambda>p. f p * g p) ps) - F * G)"
    unfolding n_def F_def G_def by (simp add: algebra_simps)
  finally show ?thesis .
qed

lemma pearson_terms:
  fixes ps :: "DataPoint list"
  defines "n \<equiv> real (length ps)"
  defines "sumX \<equiv> sum_list (map px ps)" and "sumY \<equiv> sum_list (map py ps)"
  defines "sumXY \<equiv> sum_list (map (\<lambda>p. px p * py p) ps)"
  defines "sumX2 \<equiv> sum_list (map (\<lambda>p. px p * px p) ps)"
  defines "sumY2 \<equiv> sum_list (map (\<lambda>p. py p * py p) ps)"
  assumes "ps \<noteq> []"
  shows "(n * sumXY - sumX * sumY)\<^sup>2 \<le> (n * sumX2 - sumX * sumX) * (n * sumY2 - sumY * sumY)"
    and "0 \<le> n * sumX2 - sumX * sumX" and "0 \<le> n * sumY2 - sumY * sumY"
proof -
  let ?a = "\<lambda>p. n * px p - sumX" and ?b = "\<lambda>p. n * py p - sumY"
  have npos: "0 < n" using assms by simp
  have ab: "sum_list (map (\<lambda>p. ?a p * ?b p) ps) = n * (n * sumXY - sumX * sumY)"
    unfolding n_def sumX_def sumY_def sumXY_def by (rule centred_products)
  have aa: "sum_list (map (\<lambda>p. ?a p * ?a p) ps) = n * (n * sumX2 - sumX * sumX)"
    unfolding n_def sumX_def sumX2_def by (rule centred_products)
  have bb: "sum_list (map (\<lambda>p. ?b p * ?b p) ps) = n * (n * sumY2 - sumY * sumY)"
    unfolding n_def sumY_def sumY2_def by (rule centred_products)
  have "0 \<le> n * (n * sumX2 - sumX * sumX)"
    unfolding aa [symmetric] by (rule sum_list_square_nonneg)
  with npos show dx: "0 \<le> n * sumX2 - sumX * sumX"
    by (simp add: zero_le_mult_iff)
  have "0 \<le> n * (n * sumY2 - sumY * sumY)"
    unfolding bb [symmetric] by (rule sum_list_square_nonneg)
  with npos show dy: "0 \<le> n * sumY2 - sumY * sumY"
    by (simp add: zero_le_mult_iff)
  have "(n * (n * sumXY - sumX * sumY))\<^sup>2
          \<le> (n * (n * sumX2 - sumX * sumX)) * (n * (n * sumY2 - sumY * sumY))"
    using cauchy_schwarz_list [of ?a ?b ps] unfolding ab aa bb .
  then have "n\<^sup>2 * (n * sumXY - sumX * sumY)\<^sup>2
          \<le> n\<^sup>2 * ((n * sumX2 - sumX * sumX) * (n * sumY2 - sumY * sumY))"
    by (simp add: power2_eq_square algebra_simps)
  moreover have "0 < n\<^sup>2" using npos by simp
  ultimately show "(n * sumXY - sumX * sumY)\<^sup>2
          \<le> (n * sumX2 - sumX * sumX) * (n * sumY2 - sumY * sumY)"
    by (simp only: mult_le_cancel_left_pos)
qed

text \<open>
  Claim C10. Whenever \<^verbatim>\<open>calculateCorrelation\<close> returns a number, it lies between \<open>-1\<close>
  and \<open>1\<close> (in exact arithmetic).
\<close>

theorem calculateCorrelation_bounded:
  "calculateCorrelation points = Some r \<Longrightarrow> - 1 \<le> r \<and> r \<le> 1"
proof -
  assume res: "calculateCorrelation points = Some r"
  let ?n = "real (length points)"
  let ?sumX = "sum_list (map px points)" and ?sumY = "sum_list (map py points)"
  let ?sumXY = "sum_list (map (\<lambda>p. px p * py p) points)"
  let ?sumX2 = "sum_list (map (\<lambda>p. px p * px p) points)"
  let ?sumY2 = "sum_list (map (\<lambda>p. py p * py p) points)"
  let ?num = "?n * ?sumXY - ?sumX * ?sumY"
  let ?den = "sqrt ((?n * ?sumX2 - ?sumX * ?sumX) * (?n * ?sumY2 - ?sumY * ?sumY))"
  from res have len: "\<not> length points < 2"
    by (auto simp: calculateCorrelation_def split: if_splits)
  then have ne: "points \<noteq> []" by auto
  from res len have den: "?den \<noteq> 0" and r: "r = ?num / ?den"
    by (auto simp: calculateCorrelation_def Let_def foldl_reduce_sum split: if_splits)
  have "0 \<le> ?den"
    by (rule real_sqrt_ge_zero, rule mult_nonneg_nonneg)
       (rule pearson_terms(2) [OF ne], rule pearson_terms(3) [OF ne])
  with den have dpos: "0 < ?den" by linarith
  have "sqrt (?num\<^sup>2) \<le> ?den"
    by (rule real_sqrt_le_mono) (rule pearson_terms(1) [OF ne])
  then have "\<bar>?num\<bar> \<le> ?den" by simp
  then have "\<bar>r\<bar> \<le> 1"
    unfolding r using dpos by (simp add: abs_divide del: real_sqrt_mult)
  then show ?thesis by linarith
qed

theorem calculateCorrelation_bounded_witness:
  "calculateCorrelation [\<lparr>px = 0, py = 1, isOutlier = None\<rparr>, \<lparr>px = 1, py = 0, isOutlier = None\<rparr>]
     = Some (- 1) \<and> - 1 \<le> (- 1 :: real) \<and> (- 1 :: real) \<le> 1"
proof -
  have c: "calculateCorrelation [\<lparr>px = 0, py = 1, isOutlier = None\<rparr>, \<lparr>px = 1, py = 0, isOutlier = None\<rparr>]
             = Some (- 1)"
    by (simp add: calculateCorrelation_def)
  from calculateCorrelation_bounded [OF c] c show ?thesis by simp
qed

end
